theory Spec2Isabelle
  imports Main "HOL-Library.Word"
begin

unbundle bit_operations_syntax

section \<open>The claims cache of the API (claimsCache.ts)\<close>

text \<open>
  The class \<open>ClaimsCache\<close> keeps the claims resolved for an access token in an in-memory
  store, under the SHA-256 digest of the token, for the token's remaining lifetime but no
  longer than a configured maximum. It has a constructor and two operations,
  \<open>getClaimsForToken\<close> and \<open>addClaimsForToken\<close>.

  Conventions of the embedding.
  \<^item> JavaScript numbers that hold whole seconds or milliseconds are \<open>int\<close>.
  \<^item> The clock (\<open>new Date()\<close>, \<open>Date.now()\<close>) gives whole milliseconds since the epoch
    and is taken to read a time after the epoch, so a clock reading is a \<open>nat\<close>. Every
    reading is an explicit argument of the operation that takes it.
  \<^item> A credential is a \<open>string\<close>: a JavaScript string whose code units are below 256.
  \<^item> The claims payload \<open>ApiClaims\<close> is imported, not declared in claimsCache.ts; it
    is a type parameter \<open>'c\<close>. Its values are objects, hence truthy in JavaScript.
  \<^item> Every operation returns, next to its result and the new state, the list of messages
    it hands to \<open>ApiLogger.info\<close>, oldest first.
\<close>

subsection \<open>The digest: \<open>hasher.sha256\<close>\<close>

text \<open>
  Modelled from the spec: \<open>hasher.sha256\<close> comes from the imported package js-sha256 and
  is not part of the repository's source files. The spec calls the key a fixed-size deterministic
  cryptographic digest of the raw credential string, SHA-256. The definitions below are
  SHA-256 as FIPS 180-4 defines it, on the UTF-8 encoding of the string, printed as 64
  lower-case hexadecimal digits, which is what the package computes for a string argument.
\<close>

type_synonym byte = "8 word"
type_synonym u32 = "32 word"

definition utf8_char :: "char \<Rightarrow> byte list" where
  "utf8_char c =
     (let n = (of_char c :: nat)
      in if n < 128 then [of_nat n]
         else [of_nat (192 + n div 64), of_nat (128 + n mod 64)])"

definition utf8 :: "string \<Rightarrow> byte list" where
  "utf8 s = concat (map utf8_char s)"

definition be64 :: "64 word \<Rightarrow> byte list" where
  "be64 n = map (\<lambda>i. ucast (drop_bit (8 * i) n)) [7, 6, 5, 4, 3, 2, 1, 0]"

definition pad :: "byte list \<Rightarrow> byte list" where
  "pad m =
     m @ [128] @ replicate ((119 - length m mod 64) mod 64) 0 @ be64 (8 * of_nat (length m))"

definition be32 :: "byte list \<Rightarrow> u32" where
  "be32 bs = foldl (\<lambda>acc b. push_bit 8 acc OR ucast b) 0 bs"

definition blocks :: "byte list \<Rightarrow> u32 list list" where
  "blocks p =
     map (\<lambda>i. map (\<lambda>j. be32 (take 4 (drop (64 * i + 4 * j) p))) [0..<16])
       [0..<length p div 64]"

definition rotr :: "nat \<Rightarrow> u32 \<Rightarrow> u32" where
  "rotr n x = drop_bit n x OR push_bit (32 - n) x"

definition Ch :: "u32 \<Rightarrow> u32 \<Rightarrow> u32 \<Rightarrow> u32" where
  "Ch x y z = (x AND y) XOR (NOT x AND z)"

definition Maj :: "u32 \<Rightarrow> u32 \<Rightarrow> u32 \<Rightarrow> u32" where
  "Maj x y z = (x AND y) XOR (x AND z) XOR (y AND z)"

definition Sigma0 :: "u32 \<Rightarrow> u32" where
  "Sigma0 x = rotr 2 x XOR rotr 13 x XOR rotr 22 x"

definition Sigma1 :: "u32 \<Rightarrow> u32" where
  "Sigma1 x = rotr 6 x XOR rotr 11 x XOR rotr 25 x"

definition sigma0 :: "u32 \<Rightarrow> u32" where
  "sigma0 x = rotr 7 x XOR rotr 18 x XOR drop_bit 3 x"

definition sigma1 :: "u32 \<Rightarrow> u32" where
  "sigma1 x = rotr 17 x XOR rotr 19 x XOR drop_bit 10 x"

definition K :: "u32 list" where
  "K =
    [0x428A2F98, 0x71374491, 0xB5C0FBCF, 0xE9B5DBA5, 0x3956C25B, 0x59F111F1, 0x923F82A4,
     0xAB1C5ED5, 0xD807AA98, 0x12835B01, 0x243185BE, 0x550C7DC3, 0x72BE5D74, 0x80DEB1FE,
     0x9BDC06A7, 0xC19BF174, 0xE49B69C1, 0xEFBE4786, 0x0FC19DC6, 0x240CA1CC, 0x2DE92C6F,
     0x4A7484AA, 0x5CB0A9DC, 0x76F988DA, 0x983E5152, 0xA831C66D, 0xB00327C8, 0xBF597FC7,
     0xC6E00BF3, 0xD5A79147, 0x06CA6351, 0x14292967, 0x27B70A85, 0x2E1B2138, 0x4D2C6DFC,
     0x53380D13, 0x650A7354, 0x766A0ABB, 0x81C2C92E, 0x92722C85, 0xA2BFE8A1, 0xA81A664B,
     0xC24B8B70, 0xC76C51A3, 0xD192E819, 0xD6990624, 0xF40E3585, 0x106AA070, 0x19A4C116,
     0x1E376C08, 0x2748774C, 0x34B0BCB5, 0x391C0CB3, 0x4ED8AA4A, 0x5B9CCA4F, 0x682E6FF3,
     0x748F82EE, 0x78A5636F, 0x84C87814, 0x8CC70208, 0x90BEFFFA, 0xA4506CEB, 0xBEF9A3F7,
     0xC67178F2]"

type_synonym hstate = "u32 \<times> u32 \<times> u32 \<times> u32 \<times> u32 \<times> u32 \<times> u32 \<times> u32"

definition H0 :: hstate where
  "H0 = (0x6A09E667, 0xBB67AE85, 0x3C6EF372, 0xA54FF53A,
         0x510E527F, 0x9B05688C, 0x1F83D9AB, 0x5BE0CD19)"

definition schedule :: "u32 list \<Rightarrow> u32 list" where
  "schedule m =
     foldl
       (\<lambda>w i. w @ [sigma1 (w ! (i - 2)) + w ! (i - 7) + sigma0 (w ! (i - 15)) + w ! (i - 16)])
       m [16..<64]"

fun sha_round :: "hstate \<Rightarrow> u32 \<times> u32 \<Rightarrow> hstate" where
  "sha_round (a, b, c, d, e, f, g, h) (k, w) =
     (let t1 = h + Sigma1 e + Ch e f g + k + w;
          t2 = Sigma0 a + Maj a b c
      in (t1 + t2, a, b, c, d + t1, e, f, g))"

fun add8 :: "hstate \<Rightarrow> hstate \<Rightarrow> hstate" where
  "add8 (a, b, c, d, e, f, g, h) (a', b', c', d', e', f', g', h') =
     (a + a', b + b', c + c', d + d', e + e', f + f', g + g', h + h')"

definition compress :: "hstate \<Rightarrow> u32 list \<Rightarrow> hstate" where
  "compress hs m = add8 hs (foldl sha_round hs (zip K (schedule m)))"

definition hexdigit :: "nat \<Rightarrow> char" where
  "hexdigit n = ''0123456789abcdef'' ! n"

definition hex32 :: "u32 \<Rightarrow> string" where
  "hex32 w = map (\<lambda>i. hexdigit (unat (drop_bit (4 * i) w AND 15))) [7, 6, 5, 4, 3, 2, 1, 0]"

fun hex_digest :: "hstate \<Rightarrow> string" where
  "hex_digest (a, b, c, d, e, f, g, h) =
     hex32 a @ hex32 b @ hex32 c @ hex32 d @ hex32 e @ hex32 f @ hex32 g @ hex32 h"

definition sha256 :: "string \<Rightarrow> string" where
  "sha256 message = hex_digest (foldl compress H0 (blocks (pad (utf8 message))))"

subsection \<open>The store: \<open>NodeCache\<close>\<close>

text \<open>
  Modelled from the spec: the store \<open>NodeCache\<close> comes from the imported package
  node-cache and is not part of the repository's source files. The spec describes it as a map from key
  to an entry that owns the payload and an absolute expiry instant, which returns an entry
  until its expiry has passed, treats an expired entry that is still stored as absent
  (removing it lazily on the lookup that meets it), overwrites on a second store under
  the same key, and holds an entry stored with a zero time-to-live permanently. The
  definitions follow the package for the options the constructor leaves at their
  defaults:
  \<^item> \<open>set(key, value, ttl)\<close> stores \<open>{t, v}\<close> with \<open>t = 0\<close> when \<open>ttl = 0\<close> and
    \<open>t = Date.now() + ttl * 1000\<close> otherwise; with the default \<open>maxKeys\<close> and a string
    key it never throws;
  \<^item> \<open>get(key)\<close> returns \<open>undefined\<close> (here \<open>None\<close>) when no entry is stored, or when
    the entry has \<open>t \<noteq> 0\<close> and \<open>t < Date.now()\<close>; in the second case it deletes the
    entry and emits the event \<open>expired\<close> with the key. Otherwise it returns the value.
  The periodic sweep of the package runs on a timer and is not modelled: it deletes only
  entries that \<open>get\<close> treats as absent already.
\<close>

record 'c Wrapped =
  wrapped_t :: int
  wrapped_v :: 'c

record 'c NodeCache =
  stdTTL :: int
  data :: "string \<rightharpoonup> 'c Wrapped"

definition NodeCache_new :: "int \<Rightarrow> 'c NodeCache" where
  "NodeCache_new ttl = \<lparr>stdTTL = ttl, data = Map.empty\<rparr>"

definition NodeCache_wrap :: "nat \<Rightarrow> 'c \<Rightarrow> int \<Rightarrow> 'c Wrapped" where
  "NodeCache_wrap now val ttl =
     \<lparr>wrapped_t = (if ttl = 0 then 0 else int now + ttl * 1000), wrapped_v = val\<rparr>"

definition NodeCache_set :: "nat \<Rightarrow> string \<Rightarrow> 'c \<Rightarrow> int \<Rightarrow> 'c NodeCache \<Rightarrow> 'c NodeCache" where
  "NodeCache_set now key val ttl this =
     this\<lparr>data := (data this)(key \<mapsto> NodeCache_wrap now val ttl)\<rparr>"

text \<open>
  \<open>NodeCache_get\<close> returns the value found, the store afterwards, and the keys for which
  it emitted \<open>expired\<close>.
\<close>

definition NodeCache_get ::
  "nat \<Rightarrow> string \<Rightarrow> 'c NodeCache \<Rightarrow> 'c option \<times> 'c NodeCache \<times> string list" where
  "NodeCache_get now key this =
     (case data this key of
        None \<Rightarrow> (None, this, [])
      | Some d \<Rightarrow>
          if wrapped_t d \<noteq> 0 \<and> wrapped_t d < int now
          then (None, this\<lparr>data := (data this)(key := None)\<rparr>, [key])
          else (Some (wrapped_v d), this, []))"

subsection \<open>Template literals\<close>

text \<open>
  A template literal prints a number in decimal. (JavaScript switches to exponent
  notation from \<open>10^21\<close> on; the numbers printed here are counts of seconds.)
\<close>

fun digits :: "nat \<Rightarrow> string" where
  "digits n =
     (if n < 10 then [char_of (48 + n)] else digits (n div 10) @ [char_of (48 + n mod 10)])"

definition numberToString :: "int \<Rightarrow> string" where
  "numberToString i = (if i < 0 then ''-'' @ digits (nat (- i)) else digits (nat i))"

subsection \<open>The class \<open>ClaimsCache\<close>\<close>

record OAuthConfiguration =
  maxClaimsCacheMinutes :: int

record 'c ClaimsCache =
  cache :: "'c NodeCache"

text \<open>
  The constructor creates the store with \<open>stdTTL = maxClaimsCacheMinutes * 60\<close> and
  registers a listener that logs every \<open>expired\<close> event.
\<close>

definition constructor :: "OAuthConfiguration \<Rightarrow> 'c ClaimsCache" where
  "constructor configuration =
     (let defaultExpirySeconds = maxClaimsCacheMinutes configuration * 60
      in \<lparr>cache = NodeCache_new defaultExpirySeconds\<rparr>)"

definition onExpired :: "string \<Rightarrow> string" where
  "onExpired key = ''Expired token has been removed from the cache (hash: '' @ key @ '')''"

text \<open>
  \<open>getClaimsForToken now accessToken this\<close>: \<open>now\<close> is the clock as the store reads it
  during the call. The result \<open>None\<close> is the \<open>null\<close> of the source.
\<close>

definition getClaimsForToken ::
  "nat \<Rightarrow> string \<Rightarrow> 'c ClaimsCache \<Rightarrow> 'c option \<times> 'c ClaimsCache \<times> string list" where
  "getClaimsForToken now accessToken this =
     (let hash = sha256 accessToken;
          (claims, cache', expired) = NodeCache_get now hash (cache this);
          this' = this\<lparr>cache := cache'\<rparr>
      in case claims of
           None \<Rightarrow>
             (None, this',
              map onExpired expired @
              [''New token will be added to claims cache (hash: '' @ hash @ '')''])
         | Some c \<Rightarrow>
             (Some c, this',
              map onExpired expired @
              [''Found existing token in claims cache (hash: '' @ hash @ '')'']))"

text \<open>
  \<open>addClaimsForToken date now accessToken expiry claims this\<close>: \<open>date\<close> is the value of
  \<open>new Date()\<close> in the first statement, \<open>now\<close> the clock as the store reads it when it
  wraps the value; \<open>expiry\<close> is in seconds since the epoch. \<open>Math.floor(date / 1000)\<close> is
  \<open>date div 1000\<close>.
\<close>

definition secondsToCache :: "nat \<Rightarrow> int \<Rightarrow> int" where
  "secondsToCache date expiry = (let epochSeconds = int (date div 1000) in expiry - epochSeconds)"

definition addClaimsForToken ::
  "nat \<Rightarrow> nat \<Rightarrow> string \<Rightarrow> int \<Rightarrow> 'c \<Rightarrow> 'c ClaimsCache \<Rightarrow> 'c ClaimsCache \<times> string list" where
  "addClaimsForToken date now accessToken expiry claims this =
     (let seconds = secondsToCache date expiry
      in if seconds > 0 then
           (let hash = sha256 accessToken;
                log1 = ''Token to be cached will expire in '' @ numberToString seconds @
                       '' seconds (hash: '' @ hash @ '')'';
                seconds' = (if seconds > stdTTL (cache this) then stdTTL (cache this)
                            else seconds);
                log2 = ''Adding token to claims cache for '' @ numberToString seconds' @
                       '' seconds (hash: '' @ hash @ '')''
            in (this\<lparr>cache := NodeCache_set now hash claims seconds' (cache this)\<rparr>,
                [log1, log2]))
         else (this, []))"

subsection \<open>Sequences of calls\<close>

text \<open>
  The callers of the cache are not part of claimsCache.ts. A \<open>call\<close> is one call of
  an operation with its clock readings and arguments; \<open>run\<close> makes the calls of a list
  in order on a cache and gives the cache afterwards. No order is imposed on the clock
  readings of different calls.
\<close>

datatype 'c call =
  GetClaims nat string
| AddClaims nat nat string int 'c

fun perform :: "'c call \<Rightarrow> 'c ClaimsCache \<Rightarrow> 'c ClaimsCache" where
  "perform (GetClaims now accessToken) this = fst (snd (getClaimsForToken now accessToken this))"
| "perform (AddClaims date now accessToken expiry claims) this =
     fst (addClaimsForToken date now accessToken expiry claims this)"

definition run :: "'c call list \<Rightarrow> 'c ClaimsCache \<Rightarrow> 'c ClaimsCache" where
  "run calls this = fold perform calls this"

section \<open>Properties\<close>

subsection \<open>The digest\<close>

text \<open>
  Two test vectors of SHA-256, computed from the definitions: the digests of the empty
  string and of \<open>abc\<close>.
\<close>

lemma sha256_empty:
  "sha256 '''' = ''e3b0c44298fc1c149afbf4c8996fb92427ae41e4649b934ca495991b7852b855''"
  by code_simp

lemma sha256_abc:
  "sha256 ''abc'' = ''ba7816bf8f01cfea414140de5dae2223b00361a396177a9cb410ff61f20015ad''"
  by code_simp

lemma hex_digest_length: "length (hex_digest hs) = 64"
  by (cases hs rule: hex_digest.cases) (simp add: hex32_def)

lemma nibble_less: "unat (x AND 15) < 16" for x :: u32
proof -
  have "unat (x AND 15) \<le> unat (15 :: u32)"
    by (rule word_and_le1 [THEN word_le_nat_alt [THEN iffD1]])
  then show ?thesis by simp
qed

lemma hexdigit_range: "n < 16 \<Longrightarrow> hexdigit n \<in> set ''0123456789abcdef''"
  unfolding hexdigit_def by (rule nth_mem) simp

lemma hex32_range: "set (hex32 w) \<subseteq> set ''0123456789abcdef''"
proof -
  have "hexdigit (unat (drop_bit n w AND 15)) \<in> set ''0123456789abcdef''" for n
    by (rule hexdigit_range) (rule nibble_less)
  then show ?thesis unfolding hex32_def set_map by (intro image_subsetI)
qed

lemma hex_digest_range: "set (hex_digest hs) \<subseteq> set ''0123456789abcdef''"
  using hex32_range by (cases hs rule: hex_digest.cases) (simp del: set_simps)

lemma sha256_length: "length (sha256 message) = 64"
  by (simp add: sha256_def hex_digest_length)

lemma sha256_range: "set (sha256 message) \<subseteq> set ''0123456789abcdef''"
  by (simp add: sha256_def hex_digest_range del: set_simps)

subsection \<open>What the two operations do to the store\<close>

lemma constructor_stdTTL: "stdTTL (cache (constructor conf)) = maxClaimsCacheMinutes conf * 60"
  by (simp add: constructor_def NodeCache_new_def)

lemma constructor_data: "data (cache (constructor conf)) = Map.empty"
  by (simp add: constructor_def NodeCache_new_def)

lemma getClaimsForToken_result:
  "fst (getClaimsForToken now accessToken this) =
     (case data (cache this) (sha256 accessToken) of
        None \<Rightarrow> None
      | Some d \<Rightarrow>
          if wrapped_t d \<noteq> 0 \<and> wrapped_t d < int now then None else Some (wrapped_v d))"
  by (simp add: getClaimsForToken_def NodeCache_get_def Let_def split: option.split)

lemma addClaimsForToken_discards:
  "secondsToCache date expiry \<le> 0 \<Longrightarrow>
     addClaimsForToken date now accessToken expiry claims this = (this, [])"
  by (simp add: addClaimsForToken_def)

lemma addClaimsForToken_data:
  "0 < secondsToCache date expiry \<Longrightarrow>
     data (cache (fst (addClaimsForToken date now accessToken expiry claims this))) =
       (data (cache this))(sha256 accessToken \<mapsto>
          NodeCache_wrap now claims (min (secondsToCache date expiry) (stdTTL (cache this))))"
  by (simp add: addClaimsForToken_def NodeCache_set_def Let_def min_def)

lemma addClaimsForToken_stdTTL:
  "stdTTL (cache (fst (addClaimsForToken date now accessToken expiry claims this))) =
     stdTTL (cache this)"
  by (simp add: addClaimsForToken_def NodeCache_set_def Let_def)

lemma addClaimsForToken_data_if:
  "data (cache (fst (addClaimsForToken date now accessToken expiry claims this))) =
     (if 0 < secondsToCache date expiry
      then (data (cache this))(sha256 accessToken \<mapsto>
             NodeCache_wrap now claims (min (secondsToCache date expiry) (stdTTL (cache this))))
      else data (cache this))"
  by (simp add: addClaimsForToken_data addClaimsForToken_discards)

text \<open>
  With a positive configured maximum, an insert with a positive remaining lifetime stores
  an entry that expires \<open>min(secondsRemaining, maxTtl)\<close> seconds after the store read the
  clock.
\<close>

lemma addClaimsForToken_expires_at:
  assumes "0 < secondsToCache date expiry" and "0 < stdTTL (cache this)"
  shows "data (cache (fst (addClaimsForToken date now accessToken expiry claims this)))
           (sha256 accessToken)
         = Some \<lparr>wrapped_t = int now + 1000 * min (secondsToCache date expiry) (stdTTL (cache this)),
                 wrapped_v = claims\<rparr>"
proof -
  define ttl where "ttl = min (secondsToCache date expiry) (stdTTL (cache this))"
  from assms have "0 < ttl" by (simp add: ttl_def)
  then show ?thesis
    using assms(1) by (simp add: addClaimsForToken_data NodeCache_wrap_def flip: ttl_def)
qed

lemma clamp_example:
  "data (cache (fst (addClaimsForToken 1000000 1000000 ''token'' 11000 ''claims''
         (constructor \<lparr>maxClaimsCacheMinutes = 5\<rparr>)))) (sha256 ''token'')
       = Some \<lparr>wrapped_t = 1000000 + 1000 * 300, wrapped_v = ''claims''\<rparr>"
  by (simp add: addClaimsForToken_expires_at secondsToCache_def constructor_stdTTL)

lemma getClaimsForToken_data:
  "data (cache (fst (snd (getClaimsForToken now accessToken this)))) k =
     (if k = sha256 accessToken \<and> fst (getClaimsForToken now accessToken this) = None then None
      else data (cache this) k)"
  by (simp add: getClaimsForToken_def NodeCache_get_def Let_def split: option.split)

lemma getClaimsForToken_stdTTL:
  "stdTTL (cache (fst (snd (getClaimsForToken now accessToken this)))) = stdTTL (cache this)"
  by (simp add: getClaimsForToken_def NodeCache_get_def Let_def split: option.split)

subsection \<open>The remaining lifetime in whole seconds\<close>

lemma floor_seconds: "1000 * int (date div 1000) \<le> int date"
  by simp

lemma secondsToCache_excess:
  "1000 * secondsToCache date expiry - (1000 * expiry - int date) = int (date mod 1000)"
proof -
  have "int date = 1000 * int (date div 1000) + int (date mod 1000)"
    by (simp add: zdiv_int zmod_int)
  then show ?thesis by (simp add: secondsToCache_def)
qed

lemma secondsToCache_pos_iff: "0 < secondsToCache date expiry \<longleftrightarrow> int date < 1000 * expiry"
proof -
  have "int (date mod 1000) < 1000" by simp
  moreover have "0 \<le> int (date mod 1000)" by simp
  ultimately show ?thesis
    using secondsToCache_excess [of date expiry] by linarith
qed

subsection \<open>A lookup after an insert\<close>

lemma lookup_after_insert:
  assumes "0 < secondsToCache date expiry" and "date \<le> now"
    and "int later \<le> min (1000 * expiry) (int now + 1000 * stdTTL (cache this))"
  shows "fst (getClaimsForToken later accessToken
            (fst (addClaimsForToken date now accessToken expiry claims this))) = Some claims"
proof -
  let ?ttl = "min (secondsToCache date expiry) (stdTTL (cache this))"
  have "1000 * expiry \<le> int now + 1000 * secondsToCache date expiry"
    using assms(2) floor_seconds [of date] by (simp add: secondsToCache_def)
  with assms(3) have "int later \<le> int now + ?ttl * 1000" by (simp add: min_def split: if_splits)
  then show ?thesis
    using assms(1) by (simp add: getClaimsForToken_result addClaimsForToken_data NodeCache_wrap_def)
qed

subsection \<open>Sequences of calls keep the configuration and store only what was inserted\<close>

lemma perform_stdTTL: "stdTTL (cache (perform c this)) = stdTTL (cache this)"
  by (cases c) (simp_all add: getClaimsForToken_stdTTL addClaimsForToken_stdTTL)

lemma run_stdTTL: "stdTTL (cache (run calls this)) = stdTTL (cache this)"
  unfolding run_def by (induction calls arbitrary: this) (simp_all add: perform_stdTTL)

lemma run_snoc: "run (calls @ [c]) this = perform c (run calls this)"
  by (simp add: run_def)

text \<open>
  Every entry of a cache that was constructed and then used through its two operations
  was stored by a call of \<open>addClaimsForToken\<close> with a positive remaining lifetime, under
  the digest of that call's credential, with that call's claims and with the expiry the
  store computed from that call's clamped time-to-live.
\<close>

lemma run_entries:
  "data (cache (run calls (constructor conf))) k = Some e \<Longrightarrow>
     \<exists>date now accessToken expiry.
       AddClaims date now accessToken expiry (wrapped_v e) \<in> set calls
       \<and> sha256 accessToken = k \<and> 0 < secondsToCache date expiry
       \<and> e = NodeCache_wrap now (wrapped_v e)
               (min (secondsToCache date expiry) (maxClaimsCacheMinutes conf * 60))"
proof (induction calls arbitrary: k e rule: rev_induct)
  case Nil
  then show ?case by (simp add: run_def constructor_data)
next
  case (snoc c calls)
  let ?s = "run calls (constructor conf)"
  have std: "stdTTL (cache ?s) = maxClaimsCacheMinutes conf * 60"
    by (simp add: run_stdTTL constructor_stdTTL)
  have old: ?case if "data (cache ?s) k = Some e"
    using snoc.IH [OF that] by auto
  show ?case
  proof (cases c)
    case (GetClaims now accessToken)
    with snoc.prems have "data (cache ?s) k = Some e"
      by (simp add: run_snoc getClaimsForToken_data split: if_splits)
    then show ?thesis by (rule old)
  next
    case (AddClaims date now accessToken expiry claims)
    show ?thesis
    proof (cases "0 < secondsToCache date expiry \<and> k = sha256 accessToken")
      case True
      with snoc.prems AddClaims std
      have "e = NodeCache_wrap now claims
                  (min (secondsToCache date expiry) (maxClaimsCacheMinutes conf * 60))"
        by (simp add: run_snoc addClaimsForToken_data)
      moreover from this have "wrapped_v e = claims" by (simp add: NodeCache_wrap_def)
      ultimately show ?thesis using True AddClaims by auto
    next
      case False
      with snoc.prems AddClaims have "data (cache ?s) k = Some e"
        by (cases "0 < secondsToCache date expiry")
           (auto simp add: run_snoc addClaimsForToken_data addClaimsForToken_discards)
      then show ?thesis by (rule old)
    qed
  qed
qed

subsection \<open>The claims\<close>

text \<open>
  C1. The claim: an insert with a positive remaining lifetime stores an entry that expires
  at \<open>now + min(secondsRemaining, maxTtl)\<close>. For a positive maximum this is
  \<open>addClaimsForToken_expires_at\<close>, and \<open>clamp_example\<close> is the instance of the claim
  (a maximum of 300 s, an expiry 10000 s ahead, the entry expires 300 s after the insert).
  With \<open>maxClaimsCacheMinutes = 0\<close> the clamp of the source, which runs after the test
  \<open>secondsToCache > 0\<close>, sets the time-to-live to 0, and the store keeps an entry stored
  with the time-to-live 0 without expiry. The theorem evaluates the source there: at the
  clock 1000000 ms, a token that expires at 1100 s has 100 s left, the clamped time-to-live
  is 0, the entry is stored with \<open>t = 0\<close>, and a lookup at any later clock reading
  returns the claims.
\<close>

theorem C1_zero_maximum_never_expires:
  "secondsToCache 1000000 1100 = 100
   \<and> min (secondsToCache 1000000 1100)
        (stdTTL (cache (constructor \<lparr>maxClaimsCacheMinutes = 0\<rparr> :: string ClaimsCache))) = 0
   \<and> data (cache (fst (addClaimsForToken 1000000 1000000 ''token'' 1100 ''claims''
         (constructor \<lparr>maxClaimsCacheMinutes = 0\<rparr>)))) (sha256 ''token'')
       = Some \<lparr>wrapped_t = 0, wrapped_v = ''claims''\<rparr>
   \<and> (\<forall>later. fst (getClaimsForToken later ''token''
         (fst (addClaimsForToken 1000000 1000000 ''token'' 1100 ''claims''
            (constructor \<lparr>maxClaimsCacheMinutes = 0\<rparr>)))) = Some ''claims'')"
  by (simp add: getClaimsForToken_result addClaimsForToken_data secondsToCache_def
      constructor_stdTTL NodeCache_wrap_def)

text \<open>
  C2. After \<open>addClaimsForToken\<close> for a credential, with a positive remaining lifetime
  \<open>expiry - floor(now)\<close>, a \<open>getClaimsForToken\<close> for the same credential returns
  exactly the claims that were inserted, whenever the clock of the lookup has not advanced
  past \<open>min(expiry, insertTime + maxTtl)\<close>. The prior content of the cache and the
  configured maximum are arbitrary; within the insert the store reads the clock no
  earlier than the first statement does.
\<close>

theorem C2_lookup_after_insert:
  assumes "0 < secondsToCache date expiry" and "date \<le> now"
    and "int later \<le> min (1000 * expiry) (int now + 1000 * stdTTL (cache this))"
  shows "fst (getClaimsForToken later accessToken
            (fst (addClaimsForToken date now accessToken expiry claims this))) = Some claims"
  using assms by (rule lookup_after_insert)

theorem C2_lookup_after_insert_witness:
  "0 < secondsToCache 1000000 11000 \<and> (1000000::nat) \<le> 1000000
   \<and> int 1300000 \<le> min (1000 * 11000)
        (int 1000000 +
         1000 * stdTTL (cache (constructor \<lparr>maxClaimsCacheMinutes = 5\<rparr> :: string ClaimsCache)))
   \<and> fst (getClaimsForToken 1300000 ''token''
        (fst (addClaimsForToken 1000000 1000000 ''token'' 11000 ''claims''
           (constructor \<lparr>maxClaimsCacheMinutes = 5\<rparr>)))) = Some ''claims''"
proof -
  let ?c = "constructor \<lparr>maxClaimsCacheMinutes = 5\<rparr> :: string ClaimsCache"
  have h1: "0 < secondsToCache 1000000 11000" by (simp add: secondsToCache_def)
  have h2: "(1000000::nat) \<le> 1000000" by simp
  have h3: "int 1300000 \<le> min (1000 * 11000) (int 1000000 + 1000 * stdTTL (cache ?c))"
    by (simp add: constructor_stdTTL)
  show ?thesis
    using h1 h3 C2_lookup_after_insert [OF h1 h2 h3, of "''token''" "''claims''"] by simp
qed

text \<open>
  C3. An insert whose remaining lifetime \<open>expiry - floor(now)\<close> is zero or negative is a
  no-op: the call returns, the cache is the one it was given, and a lookup of any
  credential afterwards gives what it would have given before the call. (By
  \<open>secondsToCache_pos_iff\<close> the remaining lifetime in whole seconds is zero or negative
  exactly when the expiry instant is not after the clock reading.)
\<close>

theorem C3_expired_insert_is_noop:
  assumes "secondsToCache date expiry \<le> 0"
  shows "fst (addClaimsForToken date now accessToken expiry claims this) = this
    \<and> getClaimsForToken later tok (fst (addClaimsForToken date now accessToken expiry claims this))
        = getClaimsForToken later tok this"
  using assms by (simp add: addClaimsForToken_discards)

theorem C3_expired_insert_is_noop_witness:
  "secondsToCache 10000 5 \<le> 0
   \<and> fst (addClaimsForToken 10000 10000 ''token'' 5 ''claims''
             (constructor \<lparr>maxClaimsCacheMinutes = 5\<rparr>))
       = constructor \<lparr>maxClaimsCacheMinutes = 5\<rparr>
   \<and> fst (getClaimsForToken 10001 ''token''
         (fst (addClaimsForToken 10000 10000 ''token'' 5 ''claims''
             (constructor \<lparr>maxClaimsCacheMinutes = 5\<rparr>)))) = None"
proof -
  have h: "secondsToCache 10000 5 \<le> 0" by (simp add: secondsToCache_def)
  show ?thesis
    using h C3_expired_insert_is_noop [OF h, of 10000 "''token''" "''claims''"
        "constructor \<lparr>maxClaimsCacheMinutes = 5\<rparr>" 10001 "''token''"]
    by (simp add: getClaimsForToken_result constructor_def NodeCache_new_def)
qed

text \<open>
  C4. The claim: every entry that a lookup returns satisfies \<open>now < entry.expiry\<close> and
  \<open>entry.expiry \<le> insertion_time + maxTtl\<close>, and once the expiry instant has passed the
  lookup misses, swept or not. The first inequality is not strict in the source: the
  store treats an entry as expired when \<open>t < now\<close>, so a lookup at the expiry instant
  itself still returns the entry. The counterexample inserts at the clock 1000000 ms a
  token that expires at 1001 s, with a maximum of 5 minutes: the entry has
  \<open>t = 1001000\<close>, and the lookup at the clock 1001000 returns the claims.
\<close>

theorem C4_lookup_at_expiry_instant_hits:
  "fst (getClaimsForToken 1001000 ''token''
      (fst (addClaimsForToken 1000000 1000000 ''token'' 1001 ''claims''
         (constructor \<lparr>maxClaimsCacheMinutes = 5\<rparr>)))) = Some ''claims''
   \<and> data (cache (fst (addClaimsForToken 1000000 1000000 ''token'' 1001 ''claims''
         (constructor \<lparr>maxClaimsCacheMinutes = 5\<rparr>)))) (sha256 ''token'')
       = Some \<lparr>wrapped_t = 1001000, wrapped_v = ''claims''\<rparr>
   \<and> \<not> (int 1001000 < 1001000)"
  by (simp add: getClaimsForToken_result addClaimsForToken_data secondsToCache_def
      constructor_stdTTL NodeCache_wrap_def)

text \<open>
  C4, as amended. Take a cache constructed with a positive maximum and used through any
  sequence of calls of its two operations, at any clock readings. If a lookup at the clock
  \<open>later\<close> returns claims, then the entry \<open>e\<close> stored under the credential's digest holds
  these claims, \<open>later \<le> t\<close> for its expiry \<open>t\<close>, and some insert of the sequence, for a
  credential with the same digest and with these claims, stored it at a clock reading
  \<open>now\<close> with \<open>t = now + min(secondsRemaining, maxTtl) \<le> now + maxTtl\<close> (in
  milliseconds). And if the entry stored under the credential's digest has \<open>t < later\<close>,
  the lookup returns \<open>None\<close> and removes the entry; no sweep is part of the model.
\<close>

theorem C4_hit_within_expiry:
  assumes "0 < maxClaimsCacheMinutes conf"
  shows "(fst (getClaimsForToken later tok (run calls (constructor conf))) = Some claims \<longrightarrow>
           (\<exists>e date now accessToken expiry.
              data (cache (run calls (constructor conf))) (sha256 tok) = Some e
              \<and> wrapped_v e = claims
              \<and> int later \<le> wrapped_t e
              \<and> AddClaims date now accessToken expiry claims \<in> set calls
              \<and> sha256 accessToken = sha256 tok
              \<and> wrapped_t e = int now + 1000 * min (secondsToCache date expiry)
                                               (maxClaimsCacheMinutes conf * 60)
              \<and> wrapped_t e \<le> int now + 1000 * (maxClaimsCacheMinutes conf * 60)))
       \<and> (\<forall>e. data (cache (run calls (constructor conf))) (sha256 tok) = Some e
                \<and> wrapped_t e < int later \<longrightarrow>
              fst (getClaimsForToken later tok (run calls (constructor conf))) = None
              \<and> data (cache (fst (snd (getClaimsForToken later tok (run calls (constructor conf))))))
                   (sha256 tok) = None)"
proof -
  let ?s = "run calls (constructor conf)"
  let ?std = "maxClaimsCacheMinutes conf * 60"
  have stored: "\<exists>date now accessToken expiry.
       AddClaims date now accessToken expiry (wrapped_v e) \<in> set calls
       \<and> sha256 accessToken = sha256 tok
       \<and> wrapped_t e = int now + 1000 * min (secondsToCache date expiry) ?std
       \<and> 0 < wrapped_t e"
    if "data (cache ?s) (sha256 tok) = Some e" for e
  proof -
    from run_entries [OF that] obtain date now accessToken expiry where
      a: "AddClaims date now accessToken expiry (wrapped_v e) \<in> set calls"
      and k: "sha256 accessToken = sha256 tok" and pos: "0 < secondsToCache date expiry"
      and e: "e = NodeCache_wrap now (wrapped_v e) (min (secondsToCache date expiry) ?std)"
      by blast
    define ttl where "ttl = min (secondsToCache date expiry) ?std"
    from pos assms have ttl: "0 < ttl" by (simp add: ttl_def)
    have "wrapped_t e = wrapped_t (NodeCache_wrap now (wrapped_v e) ttl)"
      using e by (simp add: ttl_def)
    with ttl have t: "wrapped_t e = int now + 1000 * ttl"
      by (simp add: NodeCache_wrap_def)
    moreover from t ttl have "0 < wrapped_t e" by simp
    ultimately show ?thesis using a k by (auto simp add: ttl_def)
  qed
  have hit: "\<exists>e date now accessToken expiry.
              data (cache ?s) (sha256 tok) = Some e
              \<and> wrapped_v e = claims
              \<and> int later \<le> wrapped_t e
              \<and> AddClaims date now accessToken expiry claims \<in> set calls
              \<and> sha256 accessToken = sha256 tok
              \<and> wrapped_t e = int now + 1000 * min (secondsToCache date expiry) ?std
              \<and> wrapped_t e \<le> int now + 1000 * ?std"
    if "fst (getClaimsForToken later tok ?s) = Some claims"
  proof -
    from that obtain e where d: "data (cache ?s) (sha256 tok) = Some e"
      and v: "wrapped_v e = claims" and live: "\<not> (wrapped_t e \<noteq> 0 \<and> wrapped_t e < int later)"
      by (auto simp add: getClaimsForToken_result split: option.splits if_splits)
    from stored [OF d] obtain date now accessToken expiry where
      a: "AddClaims date now accessToken expiry (wrapped_v e) \<in> set calls"
      and k: "sha256 accessToken = sha256 tok"
      and t: "wrapped_t e = int now + 1000 * min (secondsToCache date expiry) ?std"
      and nz: "0 < wrapped_t e"
      by blast
    from live nz have "int later \<le> wrapped_t e" by simp
    moreover from t have "wrapped_t e \<le> int now + 1000 * ?std" by simp
    ultimately show ?thesis using d v a k t by blast
  qed
  have miss: "fst (getClaimsForToken later tok ?s) = None
      \<and> data (cache (fst (snd (getClaimsForToken later tok ?s)))) (sha256 tok) = None"
    if "data (cache ?s) (sha256 tok) = Some e \<and> wrapped_t e < int later" for e
  proof -
    from that have d: "data (cache ?s) (sha256 tok) = Some e" and lt: "wrapped_t e < int later"
      by simp_all
    from stored [OF d] have "0 < wrapped_t e" by blast
    with d lt have "fst (getClaimsForToken later tok ?s) = None"
      by (simp add: getClaimsForToken_result)
    then show ?thesis by (simp add: getClaimsForToken_data)
  qed
  from hit miss show ?thesis by blast
qed

text \<open>
  The witness: a maximum of 5 minutes; an insert at the clock 1000000 ms of a token that
  expires at 11000 s, clamped to 300 s; a lookup at 1200000 ms hits, one at 1300001 ms,
  a millisecond after the expiry, misses.
\<close>

theorem C4_hit_within_expiry_witness:
  "0 < maxClaimsCacheMinutes \<lparr>maxClaimsCacheMinutes = 5\<rparr>
   \<and> fst (getClaimsForToken 1200000 ''token''
        (run [AddClaims 1000000 1000000 ''token'' 11000 ''claims'']
           (constructor \<lparr>maxClaimsCacheMinutes = 5\<rparr>))) = Some ''claims''
   \<and> (\<exists>e date now accessToken expiry.
        data (cache (run [AddClaims 1000000 1000000 ''token'' 11000 ''claims'']
           (constructor \<lparr>maxClaimsCacheMinutes = 5\<rparr>))) (sha256 ''token'') = Some e
        \<and> wrapped_v e = ''claims''
        \<and> int 1200000 \<le> wrapped_t e
        \<and> AddClaims date now accessToken expiry ''claims''
             \<in> set [AddClaims 1000000 1000000 ''token'' 11000 ''claims'']
        \<and> wrapped_t e \<le> int now + 1000 * (5 * 60))
   \<and> data (cache (run [AddClaims 1000000 1000000 ''token'' 11000 ''claims'']
           (constructor \<lparr>maxClaimsCacheMinutes = 5\<rparr>))) (sha256 ''token'')
       = Some \<lparr>wrapped_t = 1300000, wrapped_v = ''claims''\<rparr>
   \<and> fst (getClaimsForToken 1300001 ''token''
        (run [AddClaims 1000000 1000000 ''token'' 11000 ''claims'']
           (constructor \<lparr>maxClaimsCacheMinutes = 5\<rparr>))) = None"
proof -
  let ?conf = "\<lparr>maxClaimsCacheMinutes = 5\<rparr>"
  let ?calls = "[AddClaims 1000000 1000000 ''token'' 11000 ''claims'']"
  let ?s = "run ?calls (constructor ?conf)"
  have h: "0 < maxClaimsCacheMinutes ?conf" by simp
  have d: "data (cache ?s) (sha256 ''token'')
             = Some \<lparr>wrapped_t = 1300000, wrapped_v = ''claims''\<rparr>"
    by (simp add: run_def addClaimsForToken_data secondsToCache_def constructor_stdTTL
        NodeCache_wrap_def)
  have a: "fst (getClaimsForToken 1200000 ''token'' ?s) = Some ''claims''"
    by (simp add: getClaimsForToken_result d)
  have b: "data (cache ?s) (sha256 ''token'') = Some \<lparr>wrapped_t = 1300000, wrapped_v = ''claims''\<rparr>
           \<and> wrapped_t \<lparr>wrapped_t = 1300000, wrapped_v = ''claims''\<rparr> < int 1300001"
    using d by simp
  from C4_hit_within_expiry [OF h, of 1200000 "''token''" ?calls "''claims''"] a
  have c1: "\<exists>e date now accessToken expiry.
        data (cache ?s) (sha256 ''token'') = Some e
        \<and> wrapped_v e = ''claims''
        \<and> int 1200000 \<le> wrapped_t e
        \<and> AddClaims date now accessToken expiry ''claims'' \<in> set ?calls
        \<and> wrapped_t e \<le> int now + 1000 * (5 * 60)"
    by simp blast
  from C4_hit_within_expiry [OF h, of 1300001 "''token''" ?calls "''claims''"] b
  have c2: "fst (getClaimsForToken 1300001 ''token'' ?s) = None"
    by blast
  from h a c1 d c2 show ?thesis by blast
qed

text \<open>
  C5. A lookup never fails: \<open>getClaimsForToken\<close> is a total function whose result is
  the claims or \<open>None\<close>. For a credential that was never inserted it returns \<open>None\<close>
  every time: take a cache constructed with any configuration and used through any
  sequence of calls, among them any number of earlier lookups of the credential, in which
  no insert was made for a credential with the same digest; then a lookup of the
  credential, at any clock reading, returns \<open>None\<close>. (Credentials are told apart by their
  digests only: the claim holds up to collisions of SHA-256. The lookup of an entry that
  has expired is part of C4.)
\<close>

theorem C5_never_inserted_misses:
  assumes "\<forall>c \<in> set calls. \<forall>date now accessToken expiry claims.
             c = AddClaims date now accessToken expiry claims \<longrightarrow> sha256 accessToken \<noteq> sha256 tok"
  shows "fst (getClaimsForToken later tok (run calls (constructor conf))) = None"
proof (cases "data (cache (run calls (constructor conf))) (sha256 tok)")
  case None
  then show ?thesis by (simp add: getClaimsForToken_result)
next
  case (Some e)
  from run_entries [OF Some] assms show ?thesis by blast
qed

text \<open>
  The witness: the empty credential is looked up, another credential is inserted, and
  the empty credential is looked up twice more.
\<close>

theorem C5_never_inserted_misses_witness:
  "sha256 ''abc'' \<noteq> sha256 ''''
   \<and> fst (getClaimsForToken 4000 ''''
        (run [GetClaims 1000 '''', AddClaims 2000 2000 ''abc'' 100 ''claims'', GetClaims 3000 '''']
           (constructor \<lparr>maxClaimsCacheMinutes = 5\<rparr>))) = None"
proof -
  let ?calls = "[GetClaims 1000 '''', AddClaims 2000 2000 ''abc'' 100 ''claims'', GetClaims 3000 '''']"
  have ne: "sha256 ''abc'' \<noteq> sha256 ''''"
    by (simp add: sha256_abc sha256_empty)
  then have h: "\<forall>c \<in> set ?calls. \<forall>date now accessToken expiry claims.
      c = AddClaims date now accessToken expiry claims \<longrightarrow> sha256 accessToken \<noteq> sha256 ''''"
    by simp
  from ne C5_never_inserted_misses [OF h, of 4000 "\<lparr>maxClaimsCacheMinutes = 5\<rparr>"]
  show ?thesis by simp
qed

text \<open>
  C6. A credential is inserted with claims A and then with claims B, the second time with
  a positive remaining lifetime. The cache is then the one that the second insert alone
  would have left: the entry under the credential's digest holds B and the expiry the
  store computed from the second insert's clock reading and time-to-live, and a lookup
  of the credential returns B, or \<open>None\<close> once that expiry has passed. (The first
  insert's remaining lifetime may be anything; when it is not positive the insert is a
  no-op.)
\<close>

theorem C6_last_insert_wins:
  assumes "0 < secondsToCache date2 expiry2"
  shows "fst (addClaimsForToken date2 now2 tok expiry2 claimsB
            (fst (addClaimsForToken date1 now1 tok expiry1 claimsA this)))
         = fst (addClaimsForToken date2 now2 tok expiry2 claimsB this)
     \<and> data (cache (fst (addClaimsForToken date2 now2 tok expiry2 claimsB
            (fst (addClaimsForToken date1 now1 tok expiry1 claimsA this))))) (sha256 tok)
         = Some (NodeCache_wrap now2 claimsB
                   (min (secondsToCache date2 expiry2) (stdTTL (cache this))))
     \<and> fst (getClaimsForToken later tok
           (fst (addClaimsForToken date2 now2 tok expiry2 claimsB
              (fst (addClaimsForToken date1 now1 tok expiry1 claimsA this)))))
         = (if wrapped_t (NodeCache_wrap now2 claimsB
                   (min (secondsToCache date2 expiry2) (stdTTL (cache this)))) \<noteq> 0
               \<and> wrapped_t (NodeCache_wrap now2 claimsB
                   (min (secondsToCache date2 expiry2) (stdTTL (cache this)))) < int later
            then None else Some claimsB)"
proof -
  let ?s1 = "fst (addClaimsForToken date1 now1 tok expiry1 claimsA this)"
  have eq: "fst (addClaimsForToken date2 now2 tok expiry2 claimsB ?s1)
         = fst (addClaimsForToken date2 now2 tok expiry2 claimsB this)"
    using assms by (simp add: addClaimsForToken_def NodeCache_set_def Let_def)
  have d: "data (cache (fst (addClaimsForToken date2 now2 tok expiry2 claimsB this))) (sha256 tok)
     = Some (NodeCache_wrap now2 claimsB (min (secondsToCache date2 expiry2) (stdTTL (cache this))))"
    using assms by (simp add: addClaimsForToken_data)
  show ?thesis
    unfolding eq using d by (simp add: getClaimsForToken_result NodeCache_wrap_def)
qed

text \<open>
  The witness: a maximum of 5 minutes; at the clock 1000000 ms claims A with 100 s left,
  at 1001000 ms claims B with 50 s left. The entry holds B and expires at 1051000 ms; a
  lookup at 1051000 ms returns B and one at 1090000 ms, within the first insert's
  lifetime, returns \<open>None\<close>.
\<close>

theorem C6_last_insert_wins_witness:
  "0 < secondsToCache 1001000 1051
   \<and> data (cache (fst (addClaimsForToken 1001000 1001000 ''token'' 1051 ''B''
        (fst (addClaimsForToken 1000000 1000000 ''token'' 1100 ''A''
           (constructor \<lparr>maxClaimsCacheMinutes = 5\<rparr>)))))) (sha256 ''token'')
       = Some \<lparr>wrapped_t = 1051000, wrapped_v = ''B''\<rparr>
   \<and> fst (getClaimsForToken 1051000 ''token''
        (fst (addClaimsForToken 1001000 1001000 ''token'' 1051 ''B''
           (fst (addClaimsForToken 1000000 1000000 ''token'' 1100 ''A''
              (constructor \<lparr>maxClaimsCacheMinutes = 5\<rparr>)))))) = Some ''B''
   \<and> fst (getClaimsForToken 1090000 ''token''
        (fst (addClaimsForToken 1001000 1001000 ''token'' 1051 ''B''
           (fst (addClaimsForToken 1000000 1000000 ''token'' 1100 ''A''
              (constructor \<lparr>maxClaimsCacheMinutes = 5\<rparr>)))))) = None"
proof -
  let ?c = "constructor \<lparr>maxClaimsCacheMinutes = 5\<rparr> :: string ClaimsCache"
  have h: "0 < secondsToCache 1001000 1051" by (simp add: secondsToCache_def)
  have w: "NodeCache_wrap 1001000 ''B'' (min (secondsToCache 1001000 1051) (stdTTL (cache ?c)))
             = \<lparr>wrapped_t = 1051000, wrapped_v = ''B''\<rparr>"
    by (simp add: NodeCache_wrap_def secondsToCache_def constructor_stdTTL)
  note at_expiry =
    C6_last_insert_wins [OF h, of 1001000 "''token''" "''B''" 1000000 1000000 1100 "''A''" ?c
      1051000, unfolded w]
  note after_expiry =
    C6_last_insert_wins [OF h, of 1001000 "''token''" "''B''" 1000000 1000000 1100 "''A''" ?c
      1090000, unfolded w]
  from at_expiry [THEN conjunct2, THEN conjunct2]
  have g1: "fst (getClaimsForToken 1051000 ''token''
        (fst (addClaimsForToken 1001000 1001000 ''token'' 1051 ''B''
           (fst (addClaimsForToken 1000000 1000000 ''token'' 1100 ''A'' ?c))))) = Some ''B''"
    by simp
  from after_expiry [THEN conjunct2, THEN conjunct2]
  have g2: "fst (getClaimsForToken 1090000 ''token''
        (fst (addClaimsForToken 1001000 1001000 ''token'' 1051 ''B''
           (fst (addClaimsForToken 1000000 1000000 ''token'' 1100 ''A'' ?c))))) = None"
    by simp
  from h at_expiry [THEN conjunct2, THEN conjunct1] g1 g2 show ?thesis by blast
qed

text \<open>
  C7. The cache key is \<open>sha256 credential\<close>, a total function of the credential string
  (a function of HOL: defined for every string, equal on equal strings). Its value is
  made of 64 hexadecimal digits whatever the credential. A lookup reads the entry stored
  under \<open>sha256 credential\<close> and nothing else, and an insert with a positive remaining
  lifetime writes the entry under \<open>sha256 credential\<close> and nothing else, so both address
  the same entry for the same credential.
\<close>

theorem C7_key_is_sha256_digest:
  "length (sha256 credential) = 64
   \<and> set (sha256 credential) \<subseteq> set ''0123456789abcdef''
   \<and> fst (getClaimsForToken now credential this) =
       (case data (cache this) (sha256 credential) of
          None \<Rightarrow> None
        | Some d \<Rightarrow>
            if wrapped_t d \<noteq> 0 \<and> wrapped_t d < int now then None else Some (wrapped_v d))
   \<and> data (cache (fst (addClaimsForToken date now' credential expiry claims this))) =
       (if 0 < secondsToCache date expiry
        then (data (cache this))(sha256 credential \<mapsto>
               NodeCache_wrap now' claims (min (secondsToCache date expiry) (stdTTL (cache this))))
        else data (cache this))"
  using sha256_length [of credential] sha256_range [of credential]
    getClaimsForToken_result [of now credential this]
    addClaimsForToken_data_if [of date now' credential expiry claims this]
  by blast

text \<open>
  C8. The claim: an insert that is discarded because the remaining lifetime is zero or
  negative emits an event to the log, and throws nothing. The source has no statement on
  that path: nothing is logged. The counterexample is the insert of the spec's example,
  an expiry 5 s before the clock: the list of logged messages is empty.
\<close>

theorem C8_discard_logs_nothing:
  "secondsToCache 10000 5 = - 5
   \<and> snd (addClaimsForToken 10000 10000 ''token'' 5 ''claims''
        (constructor \<lparr>maxClaimsCacheMinutes = 5\<rparr>)) = []"
  by (simp add: addClaimsForToken_def secondsToCache_def)

text \<open>
  C8, as amended. An insert whose remaining lifetime is zero or negative returns without
  an exception or a failure code and hands no message to the logger: the discard is
  observable neither to the caller nor in the log.
\<close>

theorem C8_discard_is_silent:
  assumes "secondsToCache date expiry \<le> 0"
  shows "snd (addClaimsForToken date now accessToken expiry claims this) = []"
  using assms by (simp add: addClaimsForToken_discards)

theorem C8_discard_is_silent_witness:
  "secondsToCache 10000 10 \<le> 0
   \<and> snd (addClaimsForToken 10000 10000 ''token'' 10 ''claims''
        (constructor \<lparr>maxClaimsCacheMinutes = 5\<rparr>)) = []"
proof -
  have h: "secondsToCache 10000 10 \<le> 0" by (simp add: secondsToCache_def)
  show ?thesis
    using h C8_discard_is_silent [OF h, of 10000 "''token''" "''claims''"
        "constructor \<lparr>maxClaimsCacheMinutes = 5\<rparr>"]
    by simp
qed

text \<open>
  C9. Neither operation tests the credential for emptiness. A lookup of the empty
  credential reads the entry stored under the digest of the empty string and returns its
  claims or \<open>None\<close>. An insert for the empty credential with a positive remaining
  lifetime stores an entry under that digest, and a lookup of the empty credential whose
  clock has not advanced past \<open>min(expiry, insertTime + maxTtl)\<close> returns the claims.
\<close>

theorem C9_empty_credential_accepted:
  assumes "0 < secondsToCache date expiry" and "date \<le> now"
    and "int later \<le> min (1000 * expiry) (int now + 1000 * stdTTL (cache this))"
  shows "sha256 '''' = ''e3b0c44298fc1c149afbf4c8996fb92427ae41e4649b934ca495991b7852b855''
     \<and> fst (getClaimsForToken clock '''' other) =
         (case data (cache other) (sha256 '''') of
            None \<Rightarrow> None
          | Some d \<Rightarrow>
              if wrapped_t d \<noteq> 0 \<and> wrapped_t d < int clock then None else Some (wrapped_v d))
     \<and> data (cache (fst (addClaimsForToken date now '''' expiry claims this))) (sha256 '''')
         = Some (NodeCache_wrap now claims
                   (min (secondsToCache date expiry) (stdTTL (cache this))))
     \<and> fst (getClaimsForToken later ''''
           (fst (addClaimsForToken date now '''' expiry claims this))) = Some claims"
  using assms sha256_empty getClaimsForToken_result [of clock "''''" other]
    lookup_after_insert [OF assms, of "''''" claims]
  by (simp add: addClaimsForToken_data)

theorem C9_empty_credential_accepted_witness:
  "0 < secondsToCache 1000000 1100 \<and> (1000000::nat) \<le> 1000000
   \<and> fst (getClaimsForToken 1100000 ''''
        (fst (addClaimsForToken 1000000 1000000 '''' 1100 ''claims''
           (constructor \<lparr>maxClaimsCacheMinutes = 5\<rparr>)))) = Some ''claims''
   \<and> fst (getClaimsForToken 1000000 ''''
        (constructor \<lparr>maxClaimsCacheMinutes = 5\<rparr> :: string ClaimsCache)) = None"
proof -
  let ?c = "constructor \<lparr>maxClaimsCacheMinutes = 5\<rparr> :: string ClaimsCache"
  have h1: "0 < secondsToCache 1000000 1100" by (simp add: secondsToCache_def)
  have h2: "(1000000::nat) \<le> 1000000" by simp
  have h3: "int 1100000 \<le> min (1000 * 1100) (int 1000000 + 1000 * stdTTL (cache ?c))"
    by (simp add: constructor_stdTTL)
  from h1 C9_empty_credential_accepted [OF h1 h2 h3, of 1000000 ?c "''claims''"]
  show ?thesis by (simp add: constructor_data)
qed

text \<open>
  C10. The insert takes the clock in whole seconds, rounded down. In milliseconds, the
  remaining lifetime it computes exceeds the true one, \<open>1000 * expiry - date\<close>, by
  \<open>date mod 1000\<close>: by at least 0 and by less than one second. So an insert whose true
  remaining lifetime is positive, however short, has a positive computed lifetime and
  stores its entry, with the time-to-live computed from the rounded clock.
\<close>

theorem C10_floor_overstates_lifetime:
  "1000 * secondsToCache date expiry - (1000 * expiry - int date) = int (date mod 1000)
   \<and> 0 \<le> 1000 * secondsToCache date expiry - (1000 * expiry - int date)
   \<and> 1000 * secondsToCache date expiry - (1000 * expiry - int date) < 1000
   \<and> (0 < 1000 * expiry - int date \<longrightarrow>
        0 < secondsToCache date expiry
        \<and> data (cache (fst (addClaimsForToken date now tok expiry claims this))) (sha256 tok) =
            Some (NodeCache_wrap now claims
                    (min (secondsToCache date expiry) (stdTTL (cache this)))))"
proof -
  have "0 < secondsToCache date expiry" if "0 < 1000 * expiry - int date"
    using that by (simp add: secondsToCache_pos_iff)
  then show ?thesis
    by (simp add: secondsToCache_excess addClaimsForToken_data)
qed

text \<open>
  The witness: at the clock 1999999 ms a token that expires at 2000 s has 1 ms left. The
  insert computes 1 s, 999 ms more, and stores the entry until 2000999 ms, 999 ms after
  the token's expiry.
\<close>

theorem C10_floor_overstates_lifetime_witness:
  "0 < 1000 * 2000 - int 1999999
   \<and> 1000 * 2000 - int 1999999 = 1
   \<and> 1000 * secondsToCache 1999999 2000 = 1000
   \<and> 1000 * secondsToCache 1999999 2000 - (1000 * 2000 - int 1999999) = 999
   \<and> data (cache (fst (addClaimsForToken 1999999 1999999 ''token'' 2000 ''claims''
         (constructor \<lparr>maxClaimsCacheMinutes = 5\<rparr>)))) (sha256 ''token'')
       = Some \<lparr>wrapped_t = 2000999, wrapped_v = ''claims''\<rparr>"
  using C10_floor_overstates_lifetime [of 1999999 2000 1999999 "''token''" "''claims''"
      "constructor \<lparr>maxClaimsCacheMinutes = 5\<rparr>"]
  by (simp add: secondsToCache_def constructor_stdTTL NodeCache_wrap_def)

end
